theory Spec2Isabelle
  imports Main "HOL-Library.Word"
begin

section \<open>JavaScript strings\<close>

text \<open>
  A JavaScript string is a sequence of UTF-16 code units. String literals of the source
  are written with \<open>lit\<close>; characters outside ASCII are given by their code units.
\<close>

type_synonym jsstring = "16 word list"

definition lit :: "string \<Rightarrow> jsstring" where
  "lit s = map of_char s"

text \<open>
  \<open>String.prototype.trim\<close> strips the ECMAScript WhiteSpace and LineTerminator code
  points from both ends: TAB, LF, VT, FF, CR, SP, NBSP, U+1680, U+2000 to U+200A, U+2028,
  U+2029, U+202F, U+205F, U+3000 and U+FEFF. All of them are single code units.
\<close>

definition isWhiteSpace :: "16 word \<Rightarrow> bool" where
  "isWhiteSpace c \<longleftrightarrow>
     c \<in> set [0x9, 0xA, 0xB, 0xC, 0xD, 0x20, 0xA0, 0x1680, 0x2028, 0x2029, 0x202F,
              0x205F, 0x3000, 0xFEFF]
     \<or> (0x2000 \<le> c \<and> c \<le> 0x200A)"

definition trim :: "jsstring \<Rightarrow> jsstring" where
  "trim s = rev (dropWhile isWhiteSpace (rev (dropWhile isWhiteSpace s)))"

section \<open>Component state\<close>

datatype role = User | Assistant

record message =
  role :: role
  content :: jsstring

record page_info =
  title :: jsstring
  url :: jsstring

text \<open>
  The four \<open>useState\<close> cells of \<open>App\<close>. A handler sees the values of the render
  it was created in; \<open>questionCount\<close> is a JavaScript number that only ever
  grows by one from zero, so a natural number represents it exactly.
\<close>

record app_state =
  messages :: "message list"
  input :: jsstring
  questionCount :: nat
  pageInfo :: "page_info option"

definition initial :: app_state where
  "initial = \<lparr>messages = [], input = [], questionCount = 0, pageInfo = None\<rparr>"

text \<open>
  The two variants of \<open>App\<close> differ only in the two literals of \<open>handleSend\<close>:
  the transcript length compared with \<open>messages.length\<close> and the bound compared
  with \<open>questionCount\<close>.
\<close>

record config =
  identityPosition :: nat
  questionLimit :: nat

definition part_000 :: config where
  "part_000 = \<lparr>identityPosition = 2, questionLimit = 5\<rparr>"

definition part_001 :: config where
  "part_001 = \<lparr>identityPosition = 0, questionLimit = 2\<rparr>"

section \<open>External collaborators\<close>

text \<open>
  A promise either rejects or resolves with a value. The SDK clients are outside the
  repository; a \<open>services\<close> value says how they answer each call.
\<close>

datatype 'a outcome = Rejected | Resolved 'a

datatype js_error = ServiceError | TypeError

record create_params =
  model :: jsstring
  max_tokens :: nat
  request_messages :: "message list"

text \<open>A content block is a text block or a block of any other type.\<close>

datatype content_block = TextBlock jsstring | OtherBlock

record api_response =
  response_content :: "content_block list"

record connection =
  redirectUrl :: jsstring
  waitForConnection :: "unit outcome"

record services =
  authorize :: "jsstring \<Rightarrow> jsstring \<Rightarrow> connection outcome"
  create :: "create_params \<Rightarrow> api_response outcome"

text \<open>
  An asynchronous function of the component runs up to its first \<open>await\<close> when it
  is called: the external call is made at once, the rest runs when the promise settles.
  A \<open>pending\<close> value is one such call in flight, with what the suspended function
  keeps from its closure.
\<close>

datatype pending =
    AwaitAuthorize jsstring jsstring
  | AwaitQuestion create_params nat
  | AwaitInsights create_params

section \<open>Page information\<close>

record page_response =
  response_title :: "jsstring option"
  response_url :: "jsstring option"

text \<open>
  The callback of \<open>sendMessage\<close> in \<open>getPageInfo\<close>:
  \<open>if (response && response.title && response.url)\<close> stores the response and appends
  the page turn. A field is truthy when it is a string that is not empty; the
  background script leaves a field \<open>undefined\<close> when the tab does not give it.
\<close>

definition getPageInfo :: "page_response option \<Rightarrow> app_state \<Rightarrow> app_state" where
  "getPageInfo response s =
     (case response of
        None \<Rightarrow> s
      | Some r \<Rightarrow>
          (case (response_title r, response_url r) of
             (Some t, Some u) \<Rightarrow>
               if t \<noteq> [] \<and> u \<noteq> [] then
                 s\<lparr>pageInfo := Some \<lparr>title = t, url = u\<rparr>,
                   messages := messages s @
                     [\<lparr>role = Assistant, content = lit ''Current page: '' @ t\<rparr>]\<rparr>
               else s
           | _ \<Rightarrow> s))"

section \<open>The three asynchronous actions\<close>

text \<open>\<open>response.content[0].type === 'text' ? response.content[0].text : 'Response received'\<close>;
  reading \<open>.type\<close> of the missing first block of an empty array throws.\<close>

definition reply_text :: "api_response \<Rightarrow> js_error + jsstring" where
  "reply_text response =
     (case response_content response of
        [] \<Rightarrow> Inl TypeError
      | TextBlock t # _ \<Rightarrow> Inr t
      | OtherBlock # _ \<Rightarrow> Inr (lit ''Response received''))"

definition composioSignIn :: "jsstring \<Rightarrow> pending" where
  "composioSignIn email = AwaitAuthorize email (lit ''google'')"

definition insights_system :: jsstring where
  "insights_system = lit ''You are Sherlock Holmes from the BBC show who uses these observations to think through a user's preferences and motivations for this website.''"

definition insights_prompt :: jsstring where
  "insights_prompt =
     lit ''Using the answers and questions from this interaction, make inferences and analyze the user's preferences. Use these keywords 'dietary': {'' @ [0x0A] @
     lit ''                'vegetarian', 'vegan', 'allergy', 'allergic', 'spicy', 'mild', '' @ [0x0A] @
     lit ''                'meat', 'dairy', 'gluten', 'diet', 'dietary'' @ [0x27] @ [0x0A] @
     lit ''            },'' @ [0x0A] @
     lit ''            'cuisine': {'' @ [0x0A] @
     lit ''                'asian', 'mexican', 'thai', 'chinese', 'indian', 'italian', '' @ [0x0A] @
     lit ''                'japanese', 'vietnamese', 'cuisine', 'food', 'restaurant'' @ [0x27] @ [0x0A] @
     lit ''            },'' @ [0x0A] @
     lit ''            'budget': {'' @ [0x0A] @
     lit ''                'cheap', 'expensive', 'budget', 'price', 'cost', 'affordable','' @ [0x0A] @
     lit ''                '$', '$$', '$$$', 'money', 'spend'' @ [0x27] @ [0x0A] @
     lit ''            },'' @ [0x0A] @
     lit ''            'location': {'' @ [0x0A] @
     lit ''                'near', 'close', 'distance', 'neighborhood', 'area', 'transit','' @ [0x0A] @
     lit ''                'walk', 'drive', 'uber', 'bart', 'muni'' @ [0x27] @ [0x0A] @
     lit ''            },'' @ [0x0A] @
     lit ''            'timing': {'' @ [0x0A] @
     lit ''                'time', 'when', 'available', 'reservation', 'book', 'table','' @ [0x0A] @
     lit ''                'tonight', 'tomorrow', 'weekend', 'lunch', 'dinner', 'breakfast'' @ [0x27] @ [0x0A] @
     lit ''            } and output with these choices in a json format. Remove the preamble and conclusion and only output the JSON''"

definition insights_params :: "app_state \<Rightarrow> create_params" where
  "insights_params s =
       \<lparr>model = lit ''claude-3-haiku-20240307'', max_tokens = 256,
        request_messages =
          [\<lparr>role = Assistant, content = insights_system\<rparr>] @ messages s @
          [\<lparr>role = User, content = insights_prompt\<rparr>]\<rparr>"

definition generateInsights :: "app_state \<Rightarrow> pending" where
  "generateInsights s = AwaitInsights (insights_params s)"

definition question_system :: jsstring where
  "question_system = lit ''You are a tool that wants to learn and infer about a user's preferences based on the website they are on''"

text \<open>\<open>${pageInfo?.url}\<close> prints \<open>undefined\<close> when \<open>pageInfo\<close> is \<open>null\<close>.\<close>

definition interpolate :: "jsstring option \<Rightarrow> jsstring" where
  "interpolate v = (case v of None \<Rightarrow> lit ''undefined'' | Some t \<Rightarrow> t)"

definition question_constraints :: jsstring where
  "question_constraints = lit '' Make sure that the question is answerable in maximum 3-5 words for the user. Ensure that previous questions don't overlap in subject''"

definition question_prompt :: "page_info option \<Rightarrow> jsstring" where
  "question_prompt p =
     lit ''Based on the fact that they are at '' @ interpolate (map_option url p) @
     lit '' which is a site about '' @ interpolate (map_option title p) @
     lit '' and the answers given so far, generate a question that is most useful to learn about their preferences for future uses of this website. Only output the question.'' @
     question_constraints"

definition question_params :: "app_state \<Rightarrow> create_params" where
  "question_params s =
       \<lparr>model = lit ''claude-3-haiku-20240307'', max_tokens = 256,
        request_messages =
          [\<lparr>role = Assistant, content = question_system\<rparr>] @ messages s @
          [\<lparr>role = User, content = question_prompt (pageInfo s)\<rparr>]\<rparr>"

definition generateQuestion :: "app_state \<Rightarrow> pending" where
  "generateQuestion s = AwaitQuestion (question_params s) (questionCount s)"

definition error_turn :: message where
  "error_turn = \<lparr>role = Assistant, content = lit ''Sorry, there was an error generating a response.''\<rparr>"

definition authorize_turn :: "jsstring \<Rightarrow> message" where
  "authorize_turn link =
     \<lparr>role = Assistant,
      content = [0xD83D, 0xDD17] @ lit '' Visit the URL to authorize:'' @ [0x0A] @
                [0xD83D, 0xDC49] @ lit '' '' @ link\<rparr>"

definition append_turn :: "message \<Rightarrow> app_state \<Rightarrow> app_state" where
  "append_turn m s = s\<lparr>messages := messages s @ [m]\<rparr>"

text \<open>
  The reply is appended by an updater,
  \<open>prev => [...prev, {role: 'assistant', content: response.content[0].type === ...}]\<close>,
  so the content is computed when React renders the component with the new state,
  not where \<open>setMessages\<close> is called. With an empty \<open>content\<close> array the updater
  throws in that render; there is no error boundary, and React unmounts the
  component. \<open>Inl\<close> is that error: the session is over.
\<close>

definition append_reply :: "api_response \<Rightarrow> app_state \<Rightarrow> js_error + app_state" where
  "append_reply response s =
     (case reply_text response of
        Inl e \<Rightarrow> Inl e
      | Inr t \<Rightarrow> Inr (append_turn \<lparr>role = Assistant, content = t\<rparr> s))"

text \<open>
  What a suspended function does when its promise settles, on the state of that
  moment: the state after the next render, and the error with which the function's own
  promise rejects, if it does. \<open>handleSend\<close> drops that promise, so such an error is
  handled nowhere. Only \<open>generateQuestion\<close> has a \<open>try\<close>/\<open>catch\<close>.
  \<open>setMessages\<close> is given an updater and so applies to the current transcript;
  \<open>setQuestionCount\<close> is given the value \<open>questionCount + 1\<close> of the closure.
\<close>

definition composioSignIn_resume ::
    "connection outcome \<Rightarrow> app_state \<Rightarrow> js_error + app_state \<times> js_error option" where
  "composioSignIn_resume settled s =
     (case settled of
        Rejected \<Rightarrow> Inr (s, Some ServiceError)
      | Resolved c \<Rightarrow>
          Inr (append_turn (authorize_turn (redirectUrl c)) s,
               case waitForConnection c of Rejected \<Rightarrow> Some ServiceError | Resolved _ \<Rightarrow> None))"

definition generateInsights_resume ::
    "api_response outcome \<Rightarrow> app_state \<Rightarrow> js_error + app_state \<times> js_error option" where
  "generateInsights_resume settled s =
     (case settled of
        Rejected \<Rightarrow> Inr (s, Some ServiceError)
      | Resolved response \<Rightarrow>
          (case append_reply response s of
             Inl e \<Rightarrow> Inl e
           | Inr s1 \<Rightarrow> Inr (s1, None)))"

definition generateQuestion_resume ::
    "nat \<Rightarrow> api_response outcome \<Rightarrow> app_state \<Rightarrow> js_error + app_state \<times> js_error option" where
  "generateQuestion_resume qc settled s =
     (case settled of
        Rejected \<Rightarrow> Inr (append_turn error_turn s, None)
      | Resolved response \<Rightarrow>
          (case append_reply response s of
             Inl e \<Rightarrow> Inl e
           | Inr s1 \<Rightarrow> Inr (s1\<lparr>questionCount := qc + 1\<rparr>, None)))"

text \<open>A call in flight settles as the services answer it.\<close>

fun settle :: "services \<Rightarrow> pending \<Rightarrow> app_state \<Rightarrow> js_error + app_state \<times> js_error option" where
  "settle svc (AwaitAuthorize email toolkit) s =
     composioSignIn_resume (authorize svc email toolkit) s"
| "settle svc (AwaitInsights params) s = generateInsights_resume (create svc params) s"
| "settle svc (AwaitQuestion params qc) s = generateQuestion_resume qc (create svc params) s"

section \<open>The submit handler\<close>

definition handleInputChange :: "jsstring \<Rightarrow> app_state \<Rightarrow> app_state" where
  "handleInputChange v s = s\<lparr>input := v\<rparr>"

text \<open>
  \<open>handleSend\<close> reads \<open>input\<close>, \<open>messages\<close> and \<open>questionCount\<close> of its render
  \<open>s\<close>; the user turn it queues with \<open>setMessages\<close> is not in that \<open>messages\<close>.
  The result is the state after the queued updates and the calls put in flight.
\<close>

definition handleSend :: "config \<Rightarrow> app_state \<Rightarrow> app_state \<times> pending list" where
  "handleSend cfg s =
     (if trim (input s) = [] then (s, [])
      else
        ((append_turn \<lparr>role = User, content = input s\<rparr> s)\<lparr>input := []\<rparr>,
         if length (messages s) = identityPosition cfg then [composioSignIn (trim (input s))]
         else if questionCount s < questionLimit cfg then [generateQuestion s]
         else [generateInsights s]))"

section \<open>Sessions\<close>

text \<open>
  One submission as the user makes it: the text is typed into the field, the form is
  submitted, and the call put in flight settles before anything else happens. This is
  the one-at-a-time use the specification assumes.
\<close>

definition submitted :: "config \<Rightarrow> jsstring \<Rightarrow> app_state \<Rightarrow> app_state \<times> pending list" where
  "submitted cfg text s = handleSend cfg (handleInputChange text s)"

fun settle_all :: "services \<Rightarrow> pending list \<Rightarrow> app_state \<Rightarrow> js_error + app_state \<times> js_error list" where
  "settle_all svc [] s = Inr (s, [])"
| "settle_all svc (p # ps) s =
     (case settle svc p s of
        Inl x \<Rightarrow> Inl x
      | Inr (s1, e) \<Rightarrow>
          (case settle_all svc ps s1 of
             Inl x \<Rightarrow> Inl x
           | Inr (s2, es) \<Rightarrow> Inr (s2, (case e of None \<Rightarrow> [] | Some x \<Rightarrow> [x]) @ es)))"

definition submit :: "config \<Rightarrow> services \<Rightarrow> jsstring \<Rightarrow> app_state \<Rightarrow> js_error + app_state \<times> js_error list" where
  "submit cfg svc text s =
     (case submitted cfg text s of (s1, ps) \<Rightarrow> settle_all svc ps s1)"

text \<open>
  A session is a sequence of events: a submission, with the way the collaborators
  answer at that time, or the arrival of the page information. It ends early when
  the component is unmounted.
\<close>

datatype event = Submit jsstring services | PageInfo "page_response option"

fun step :: "config \<Rightarrow> event \<Rightarrow> app_state \<Rightarrow> js_error + app_state" where
  "step cfg (Submit text svc) s = map_sum id fst (submit cfg svc text s)"
| "step cfg (PageInfo response) s = Inr (getPageInfo response s)"

fun run :: "config \<Rightarrow> event list \<Rightarrow> app_state \<Rightarrow> js_error + app_state" where
  "run cfg [] s = Inr s"
| "run cfg (e # es) s =
     (case step cfg e s of Inl x \<Rightarrow> Inl x | Inr s1 \<Rightarrow> run cfg es s1)"

text \<open>The calls put in flight by one event, and by all events of a session in order.\<close>

fun calls_of :: "config \<Rightarrow> event \<Rightarrow> app_state \<Rightarrow> pending list" where
  "calls_of cfg (Submit text svc) s = snd (submitted cfg text s)"
| "calls_of cfg (PageInfo response) s = []"

fun dispatches :: "config \<Rightarrow> event list \<Rightarrow> app_state \<Rightarrow> pending list" where
  "dispatches cfg [] s = []"
| "dispatches cfg (e # es) s =
     calls_of cfg e s @
     (case step cfg e s of Inl x \<Rightarrow> [] | Inr s1 \<Rightarrow> dispatches cfg es s1)"

fun is_authorize :: "pending \<Rightarrow> bool" where
  "is_authorize (AwaitAuthorize _ _) = True"
| "is_authorize _ = False"

fun is_question :: "pending \<Rightarrow> bool" where
  "is_question (AwaitQuestion _ _) = True"
| "is_question _ = False"

fun is_insights :: "pending \<Rightarrow> bool" where
  "is_insights (AwaitInsights _) = True"
| "is_insights _ = False"

section \<open>The transcript length the specification expects\<close>

text \<open>
  Following the specification's words: two turns for each submit with text that is
  not empty, and one turn for the page information if it arrived (if the callback
  took the response).
\<close>

fun expected_turns :: "event list \<Rightarrow> nat" where
  "expected_turns [] = 0"
| "expected_turns (Submit text svc # es) =
     (if trim text = [] then 0 else 2) + expected_turns es"
| "expected_turns (PageInfo response # es) =
     (length (messages (getPageInfo response initial))) + expected_turns es"

text \<open>A session in which no event leaves a rejection unhandled or unmounts the component.\<close>

fun all_handled :: "config \<Rightarrow> event list \<Rightarrow> app_state \<Rightarrow> bool" where
  "all_handled cfg [] s = True"
| "all_handled cfg (Submit text svc # es) s =
     (case submit cfg svc text s of
        Inl x \<Rightarrow> False
      | Inr (s1, errs) \<Rightarrow> errs = [] \<and> all_handled cfg es s1)"
| "all_handled cfg (PageInfo response # es) s = all_handled cfg es (getPageInfo response s)"

section \<open>Collaborators and states used in examples\<close>

text \<open>Test doubles: a service that rejects every call, and one that resolves every call.\<close>

definition offline :: services where
  "offline = \<lparr>authorize = (\<lambda>email toolkit. Rejected), create = (\<lambda>params. Rejected)\<rparr>"

definition sample_link :: jsstring where
  "sample_link = lit ''https://connect.example/link''"

definition replying :: "content_block list \<Rightarrow> services" where
  "replying blocks =
     \<lparr>authorize = (\<lambda>email toolkit.
        Resolved \<lparr>redirectUrl = sample_link, waitForConnection = Resolved ()\<rparr>),
      create = (\<lambda>params. Resolved \<lparr>response_content = blocks\<rparr>)\<rparr>"

text \<open>
  The session when only the page information has arrived, after the identity turn, and
  after two clarifying questions.
\<close>

definition on_page :: app_state where
  "on_page =
     \<lparr>messages = [\<lparr>role = Assistant, content = lit ''Current page: Thai''\<rparr>],
      input = [], questionCount = 0,
      pageInfo = Some \<lparr>title = lit ''Thai'', url = lit ''https://thai.example/''\<rparr>\<rparr>"

definition signed_in :: app_state where
  "signed_in =
     \<lparr>messages = [\<lparr>role = User, content = lit ''alice@example.com''\<rparr>, authorize_turn sample_link],
      input = [], questionCount = 0, pageInfo = None\<rparr>"

definition asked_twice :: app_state where
  "asked_twice =
     \<lparr>messages =
        [\<lparr>role = User, content = lit ''alice@example.com''\<rparr>, authorize_turn sample_link,
         \<lparr>role = User, content = lit ''vegetarian''\<rparr>,
         \<lparr>role = Assistant, content = lit ''Which cuisine?''\<rparr>,
         \<lparr>role = User, content = lit ''thai food''\<rparr>,
         \<lparr>role = Assistant, content = lit ''Which area?''\<rparr>],
      input = [], questionCount = 2, pageInfo = None\<rparr>"

text \<open>The session after a summary, the page information and a failed second summary.\<close>

definition summarized :: app_state where
  "summarized =
     \<lparr>messages = messages asked_twice @
        [\<lparr>role = User, content = lit ''downtown''\<rparr>,
         \<lparr>role = Assistant, content = lit ''{}''\<rparr>,
         \<lparr>role = Assistant, content = lit ''Current page: Thai''\<rparr>,
         \<lparr>role = User, content = lit ''cheap''\<rparr>],
      input = [], questionCount = 2,
      pageInfo = Some \<lparr>title = lit ''Thai'', url = lit ''https://thai.example/''\<rparr>\<rparr>"

section \<open>Facts about \<open>trim\<close>\<close>

lemma dropWhile_all_iff: "(\<forall>x\<in>set (dropWhile P xs). P x) \<longleftrightarrow> (\<forall>x\<in>set xs. P x)"
  by (induction xs) auto

text \<open>The guard \<open>!input.trim()\<close> holds exactly for a text of white space only.\<close>

lemma trim_empty_iff: "trim t = [] \<longleftrightarrow> (\<forall>c\<in>set t. isWhiteSpace c)"
  by (simp add: trim_def dropWhile_all_iff)

lemma rev_split_dropWhile:
  "xs = rev (dropWhile P (rev xs)) @ rev (takeWhile P (rev xs))"
proof -
  have "rev (takeWhile P (rev xs) @ dropWhile P (rev xs)) = rev (rev xs)"
    by (simp only: takeWhile_dropWhile_id)
  then show ?thesis
    by (simp only: rev_append rev_rev_ident)
qed

text \<open>\<open>trim\<close> removes white space at both ends and nothing else.\<close>

lemma trim_decompose:
  "\<exists>pre post. t = pre @ trim t @ post \<and> (\<forall>c\<in>set pre. isWhiteSpace c) \<and> (\<forall>c\<in>set post. isWhiteSpace c)"
proof -
  let ?a = "dropWhile isWhiteSpace t"
  have 1: "t = takeWhile isWhiteSpace t @ ?a" by simp
  have 2: "?a = trim t @ rev (takeWhile isWhiteSpace (rev ?a))"
    unfolding trim_def by (rule rev_split_dropWhile)
  have "t = takeWhile isWhiteSpace t @ trim t @ rev (takeWhile isWhiteSpace (rev ?a))"
    using 1 2 by metis
  moreover have "\<forall>c\<in>set (takeWhile isWhiteSpace t). isWhiteSpace c"
    by (auto dest: set_takeWhileD)
  moreover have "\<forall>c\<in>set (rev (takeWhile isWhiteSpace (rev ?a))). isWhiteSpace c"
    by (auto dest: set_takeWhileD)
  ultimately show ?thesis by blast
qed

lemma trim_ends:
  assumes "trim t \<noteq> []"
  shows "\<not> isWhiteSpace (hd (trim t))" and "\<not> isWhiteSpace (last (trim t))"
proof -
  let ?a = "dropWhile isWhiteSpace t"
  let ?b = "dropWhile isWhiteSpace (rev ?a)"
  from assms have b: "?b \<noteq> []" by (simp add: trim_def)
  then have "\<not> isWhiteSpace (hd ?b)" by (rule hd_dropWhile)
  then show "\<not> isWhiteSpace (last (trim t))" using b by (simp add: trim_def last_rev)
  have a: "?a \<noteq> []"
  proof
    assume "?a = []"
    then have "?b = []" by (simp only: rev.simps dropWhile.simps)
    with b show False by blast
  qed
  then have ha: "\<not> isWhiteSpace (hd ?a)" by (rule hd_dropWhile)
  have "?a = trim t @ rev (takeWhile isWhiteSpace (rev ?a))"
    unfolding trim_def by (rule rev_split_dropWhile)
  then have "hd ?a = hd (trim t)" using assms by (metis hd_append2)
  then show "\<not> isWhiteSpace (hd (trim t))" using ha by simp
qed

section \<open>Facts about the handler\<close>

lemmas resume_defs =
  composioSignIn_resume_def generateInsights_resume_def generateQuestion_resume_def

lemma question_params_input [simp]: "question_params (s\<lparr>input := v\<rparr>) = question_params s"
  by (simp add: question_params_def)

lemma insights_params_input [simp]: "insights_params (s\<lparr>input := v\<rparr>) = insights_params s"
  by (simp add: insights_params_def)

lemma submitted_blank:
  "trim text = [] \<Longrightarrow> submitted cfg text s = (s\<lparr>input := text\<rparr>, [])"
  by (simp add: submitted_def handleSend_def handleInputChange_def)

lemma submitted_state:
  "trim text \<noteq> [] \<Longrightarrow>
   fst (submitted cfg text s) = s\<lparr>messages := messages s @ [\<lparr>role = User, content = text\<rparr>], input := []\<rparr>"
  by (simp add: submitted_def handleSend_def handleInputChange_def append_turn_def)

lemma submitted_calls:
  "trim text \<noteq> [] \<Longrightarrow>
   snd (submitted cfg text s) =
     [if length (messages s) = identityPosition cfg then AwaitAuthorize (trim text) (lit ''google'')
      else if questionCount s < questionLimit cfg then AwaitQuestion (question_params s) (questionCount s)
      else AwaitInsights (insights_params s)]"
  by (simp add: submitted_def handleSend_def handleInputChange_def composioSignIn_def
        generateQuestion_def generateInsights_def)

lemma submit_blank:
  "trim text = [] \<Longrightarrow> submit cfg svc text s = Inr (s\<lparr>input := text\<rparr>, [])"
  by (simp add: submit_def submitted_blank)

lemma submit_nonblank:
  assumes "trim text \<noteq> []"
  shows "submit cfg svc text s =
     (case settle svc (hd (snd (submitted cfg text s))) (fst (submitted cfg text s)) of
        Inl x \<Rightarrow> Inl x
      | Inr (s2, e) \<Rightarrow> Inr (s2, case e of None \<Rightarrow> [] | Some x \<Rightarrow> [x]))"
proof -
  obtain p where p: "snd (submitted cfg text s) = [p]"
    using submitted_calls [OF assms] by blast
  show ?thesis
    by (cases "submitted cfg text s") (use p in \<open>simp add: submit_def split: prod.splits sum.splits\<close>)
qed

lemma submit_Inr_settle:
  assumes "trim text \<noteq> []" and "submit cfg svc text s = Inr (s1, es)"
  shows "\<exists>e. settle svc (hd (snd (submitted cfg text s))) (fst (submitted cfg text s)) = Inr (s1, e)
            \<and> es = (case e of None \<Rightarrow> [] | Some x \<Rightarrow> [x])"
  using assms(2) unfolding submit_nonblank [OF assms(1)]
  by (auto split: sum.splits prod.splits)

section \<open>Facts about settling a call\<close>

lemma settle_question:
  "settle svc (AwaitQuestion params qc) s =
     (case create svc params of
        Rejected \<Rightarrow> Inr (append_turn error_turn s, None)
      | Resolved r \<Rightarrow>
          (case response_content r of
             [] \<Rightarrow> Inl TypeError
           | b # _ \<Rightarrow>
               Inr ((append_turn \<lparr>role = Assistant,
                   content = (case b of TextBlock t \<Rightarrow> t | OtherBlock \<Rightarrow> lit ''Response received'')\<rparr> s)
                  \<lparr>questionCount := qc + 1\<rparr>, None)))"
  by (simp add: resume_defs append_reply_def reply_text_def split: outcome.splits list.splits content_block.splits)

lemma settle_insights:
  "settle svc (AwaitInsights params) s =
     (case create svc params of
        Rejected \<Rightarrow> Inr (s, Some ServiceError)
      | Resolved r \<Rightarrow>
          (case response_content r of
             [] \<Rightarrow> Inl TypeError
           | b # _ \<Rightarrow>
               Inr (append_turn \<lparr>role = Assistant,
                   content = (case b of TextBlock t \<Rightarrow> t | OtherBlock \<Rightarrow> lit ''Response received'')\<rparr> s,
                  None)))"
  by (simp add: resume_defs append_reply_def reply_text_def split: outcome.splits list.splits content_block.splits)

lemma submit_question:
  assumes "trim text \<noteq> []" "length (messages s) \<noteq> identityPosition cfg"
    "questionCount s < questionLimit cfg"
  shows "submit cfg svc text s =
     (case settle svc (AwaitQuestion (question_params s) (questionCount s))
             (s\<lparr>messages := messages s @ [\<lparr>role = User, content = text\<rparr>], input := []\<rparr>) of
        Inl x \<Rightarrow> Inl x
      | Inr (s2, e) \<Rightarrow> Inr (s2, case e of None \<Rightarrow> [] | Some x \<Rightarrow> [x]))"
  using assms by (simp add: submit_nonblank submitted_calls submitted_state)

text \<open>
  A response without a content block on the question path: the updater throws in the
  render and the component is unmounted; no error turn is shown.
\<close>

lemma submit_question_no_content:
  assumes "trim text \<noteq> []" "length (messages s) \<noteq> identityPosition cfg"
    "questionCount s < questionLimit cfg"
    and "create svc (question_params s) = Resolved r" and "response_content r = []"
  shows "submit cfg svc text s = Inl TypeError"
  unfolding submit_question [OF assms(1-3)] settle_question
  using assms(4,5) by simp

lemma settle_questionCount_cases:
  assumes "settle svc p s = Inr (s1, e)"
  shows "questionCount s1 = questionCount s
       \<or> (\<exists>params qc. p = AwaitQuestion params qc \<and> questionCount s1 = qc + 1)"
  using assms
  by (cases p)
     (auto simp: settle_question settle_insights composioSignIn_resume_def append_turn_def
           simp del: settle.simps(2,3)
           split: outcome.splits list.splits content_block.splits)

lemma settle_length_cases:
  assumes "settle svc p s = Inr (s1, e)"
  shows "length (messages s1) = length (messages s) \<or> length (messages s1) = length (messages s) + 1"
  using assms
  by (cases p)
     (auto simp: settle_question settle_insights composioSignIn_resume_def append_turn_def
           simp del: settle.simps(2,3)
           split: outcome.splits list.splits content_block.splits)

text \<open>A call that settles without an unhandled rejection has appended one turn.\<close>

lemma settle_handled_length:
  assumes "settle svc p s = Inr (s1, None)"
  shows "length (messages s1) = length (messages s) + 1"
  using assms
  by (cases p)
     (auto simp: settle_question settle_insights composioSignIn_resume_def append_turn_def
           simp del: settle.simps(2,3)
           split: outcome.splits list.splits content_block.splits)

lemma submit_handled_length:
  assumes "trim text \<noteq> []" and "submit cfg svc text s = Inr (s1, [])"
  shows "length (messages s1) = length (messages s) + 2"
proof -
  let ?p = "hd (snd (submitted cfg text s))" and ?s0 = "fst (submitted cfg text s)"
  from submit_Inr_settle [OF assms] have "settle svc ?p ?s0 = Inr (s1, None)"
    by (auto split: option.splits)
  then have "length (messages s1) = length (messages ?s0) + 1"
    by (rule settle_handled_length)
  moreover have "length (messages ?s0) = length (messages s) + 1"
    using assms(1) by (simp add: submitted_state)
  ultimately show ?thesis by simp
qed

section \<open>The counter and the transcript never shrink\<close>

lemma getPageInfo_questionCount [simp]: "questionCount (getPageInfo response s) = questionCount s"
  by (simp add: getPageInfo_def split: option.splits)

lemma getPageInfo_length_cases:
  "length (messages (getPageInfo response s)) = length (messages s)
   \<or> length (messages (getPageInfo response s)) = length (messages s) + 1"
  by (simp add: getPageInfo_def split: option.splits)

lemma getPageInfo_length_mono: "length (messages s) \<le> length (messages (getPageInfo response s))"
  using getPageInfo_length_cases [of response s] by linarith

lemma submit_questionCount_mono:
  assumes "submit cfg svc text s = Inr (s1, es)"
  shows "questionCount s \<le> questionCount s1"
proof (cases "trim text = []")
  case True
  with assms show ?thesis by (auto simp: submit_blank)
next
  case False
  let ?p = "hd (snd (submitted cfg text s))" and ?s0 = "fst (submitted cfg text s)"
  from submit_Inr_settle [OF False assms] obtain e where e: "settle svc ?p ?s0 = Inr (s1, e)"
    by blast
  have q1: "questionCount ?s0 = questionCount s"
    using False by (simp add: submitted_state)
  have p: "\<And>params qc. ?p = AwaitQuestion params qc \<Longrightarrow> qc = questionCount s"
    using False by (simp add: submitted_calls split: if_splits)
  from settle_questionCount_cases [OF e] q1 p show ?thesis by auto
qed

lemma submit_length_mono:
  assumes "submit cfg svc text s = Inr (s1, es)"
  shows "length (messages s) \<le> length (messages s1)"
proof (cases "trim text = []")
  case True
  with assms show ?thesis by (auto simp: submit_blank)
next
  case False
  let ?p = "hd (snd (submitted cfg text s))" and ?s0 = "fst (submitted cfg text s)"
  from submit_Inr_settle [OF False assms] obtain e where e: "settle svc ?p ?s0 = Inr (s1, e)"
    by blast
  have "length (messages ?s0) = length (messages s) + 1"
    using False by (simp add: submitted_state)
  with settle_length_cases [OF e] show ?thesis by auto
qed

lemma step_questionCount_mono:
  assumes "step cfg e s = Inr s1"
  shows "questionCount s \<le> questionCount s1"
proof (cases e)
  case (Submit line svc)
  with assms obtain es where "submit cfg svc line s = Inr (s1, es)"
    by (cases "submit cfg svc line s") auto
  then show ?thesis by (rule submit_questionCount_mono)
next
  case (PageInfo r)
  with assms show ?thesis by auto
qed

lemma step_length_mono:
  assumes "step cfg e s = Inr s1"
  shows "length (messages s) \<le> length (messages s1)"
proof (cases e)
  case (Submit line svc)
  with assms obtain es where "submit cfg svc line s = Inr (s1, es)"
    by (cases "submit cfg svc line s") auto
  then show ?thesis by (rule submit_length_mono)
next
  case (PageInfo r)
  with assms show ?thesis by (auto simp: getPageInfo_length_mono)
qed

lemma run_questionCount_mono:
  "run cfg es s = Inr s1 \<Longrightarrow> questionCount s \<le> questionCount s1"
proof (induction es arbitrary: s)
  case Nil
  then show ?case by simp
next
  case (Cons e es)
  from Cons.prems obtain s0 where s0: "step cfg e s = Inr s0" and r: "run cfg es s0 = Inr s1"
    by (auto split: sum.splits)
  have "questionCount s \<le> questionCount s0" using s0 by (rule step_questionCount_mono)
  also have "\<dots> \<le> questionCount s1" using r by (rule Cons.IH)
  finally show ?case .
qed

lemma run_length_mono:
  "run cfg es s = Inr s1 \<Longrightarrow> length (messages s) \<le> length (messages s1)"
proof (induction es arbitrary: s)
  case Nil
  then show ?case by simp
next
  case (Cons e es)
  from Cons.prems obtain s0 where s0: "step cfg e s = Inr s0" and r: "run cfg es s0 = Inr s1"
    by (auto split: sum.splits)
  have "length (messages s) \<le> length (messages s0)" using s0 by (rule step_length_mono)
  also have "\<dots> \<le> length (messages s1)" using r by (rule Cons.IH)
  finally show ?case .
qed

text \<open>
  A session in which nothing is left unhandled has the transcript length the
  specification expects.
\<close>

lemma getPageInfo_length:
  "length (messages (getPageInfo response s)) =
   length (messages s) + length (messages (getPageInfo response initial))"
  by (simp add: getPageInfo_def initial_def split: option.splits)

lemma submit_handled_turns:
  assumes "submit cfg svc text s = Inr (s1, [])"
  shows "length (messages s1) = length (messages s) + (if trim text = [] then 0 else 2)"
proof (cases "trim text = []")
  case True
  with assms show ?thesis by (auto simp: submit_blank)
next
  case False
  with submit_handled_length [OF False assms] show ?thesis by simp
qed

lemma all_handled_length:
  "all_handled cfg es s \<Longrightarrow>
   \<exists>s1. run cfg es s = Inr s1 \<and> length (messages s1) = length (messages s) + expected_turns es"
proof (induction es arbitrary: s)
  case Nil
  show ?case by simp
next
  case (Cons e es)
  show ?case
  proof (cases e)
    case (Submit line svc)
    with Cons.prems obtain s0 where s0: "submit cfg svc line s = Inr (s0, [])"
      and h: "all_handled cfg es s0"
      by (auto split: sum.splits prod.splits)
    from Cons.IH [OF h] obtain s1 where r: "run cfg es s0 = Inr s1"
      and l: "length (messages s1) = length (messages s0) + expected_turns es"
      by blast
    from submit_handled_turns [OF s0] l r s0 Submit show ?thesis by simp
  next
    case (PageInfo response)
    with Cons.prems have h: "all_handled cfg es (getPageInfo response s)" by simp
    from Cons.IH [OF h] obtain s1 where r: "run cfg es (getPageInfo response s) = Inr s1"
      and l: "length (messages s1) = length (messages (getPageInfo response s)) + expected_turns es"
      by blast
    from l r PageInfo getPageInfo_length [of response s] show ?thesis by simp
  qed
qed

lemma calls_of_no_question:
  assumes "questionLimit cfg \<le> questionCount s"
  shows "\<not> list_ex is_question (calls_of cfg e s)"
proof (cases e)
  case (Submit line svc)
  then show ?thesis
    using assms by (cases "trim line = []") (simp_all add: submitted_blank submitted_calls)
next
  case (PageInfo r)
  then show ?thesis by simp
qed

lemma calls_of_insights:
  assumes "questionLimit cfg \<le> questionCount s" and "identityPosition cfg < length (messages s)"
  shows "list_all is_insights (calls_of cfg e s)"
proof (cases e)
  case (Submit line svc)
  then show ?thesis
    using assms by (cases "trim line = []") (simp_all add: submitted_blank submitted_calls)
next
  case (PageInfo r)
  then show ?thesis by simp
qed

section \<open>The example states are reached by sessions\<close>

lemma reach_on_page:
  "run part_000
     [PageInfo (Some \<lparr>response_title = Some (lit ''Thai''),
                      response_url = Some (lit ''https://thai.example/'')\<rparr>)] initial = Inr on_page"
  by (simp add: getPageInfo_def initial_def on_page_def lit_def)

lemma reach_signed_in:
  "run part_001 [Submit (lit ''alice@example.com'') (replying [])] initial = Inr signed_in"
  by (simp add: submit_def submitted_def handleSend_def handleInputChange_def part_001_def initial_def
      trim_def lit_def isWhiteSpace_def composioSignIn_def replying_def append_turn_def signed_in_def resume_defs)

lemma reach_asked_twice:
  "run part_001 [Submit (lit ''vegetarian'') (replying [TextBlock (lit ''Which cuisine?'')]),
                 Submit (lit ''thai food'') (replying [TextBlock (lit ''Which area?'')])] signed_in =
   Inr asked_twice"
  by (simp add: submit_def submitted_def handleSend_def handleInputChange_def part_001_def
      trim_def lit_def isWhiteSpace_def generateQuestion_def replying_def append_turn_def signed_in_def
      asked_twice_def resume_defs append_reply_def reply_text_def authorize_turn_def)

lemma reach_summarized:
  "run part_001
     [Submit (lit ''downtown'') (replying [TextBlock (lit ''{}'')]),
      PageInfo (Some \<lparr>response_title = Some (lit ''Thai''),
                       response_url = Some (lit ''https://thai.example/'')\<rparr>),
      Submit (lit ''cheap'') offline] asked_twice = Inr summarized"
proof -
  have t1: "trim (lit ''downtown'') \<noteq> []" and t2: "trim (lit ''cheap'') \<noteq> []"
    by (simp_all add: trim_def lit_def isWhiteSpace_def)
  have p: "lit ''Thai'' \<noteq> []" "lit ''https://thai.example/'' \<noteq> []"
    "lit ''Current page: '' @ lit ''Thai'' = lit ''Current page: Thai''"
    by (simp_all add: lit_def)
  show ?thesis
    by (simp add: submit_nonblank [OF t1] submit_nonblank [OF t2] submitted_calls [OF t1]
        submitted_calls [OF t2] submitted_state [OF t1] submitted_state [OF t2]
        part_001_def asked_twice_def summarized_def offline_def replying_def resume_defs
        append_reply_def reply_text_def append_turn_def getPageInfo_def p)
qed

section \<open>The calls of a longer session\<close>

lemma dispatches_append:
  "run cfg es s = Inr s1 \<Longrightarrow>
   dispatches cfg (es @ es') s = dispatches cfg es s @ dispatches cfg es' s1"
proof (induction es arbitrary: s)
  case Nil
  then show ?case by simp
next
  case (Cons e es)
  from Cons.prems obtain s0 where s0: "step cfg e s = Inr s0" and r: "run cfg es s0 = Inr s1"
    by (auto split: sum.splits)
  from Cons.IH [OF r] s0 show ?case by simp
qed

lemma dispatches_submit:
  "run cfg es s = Inr s1 \<Longrightarrow>
   dispatches cfg (es @ [Submit text svc]) s = dispatches cfg es s @ snd (submitted cfg text s1)"
  by (simp add: dispatches_append split: sum.splits)

section \<open>The request for a clarifying question\<close>

text \<open>
  The request holds the transcript of the render in which the form was submitted,
  between the system line and the instruction. The instruction names the page when
  there is one, prints \<open>undefined\<close> twice when there is none, and ends with the two
  constraints on the question.
\<close>

lemma question_request_contents:
  "request_messages (question_params s) =
     \<lparr>role = Assistant, content = question_system\<rparr> # messages s @
     [\<lparr>role = User, content = question_prompt (pageInfo s)\<rparr>]"
  by (simp add: question_params_def)

lemma question_prompt_page:
  "question_prompt (Some p) =
     lit ''Based on the fact that they are at '' @ url p @ lit '' which is a site about '' @ title p @
     lit '' and the answers given so far, generate a question that is most useful to learn about their preferences for future uses of this website. Only output the question.'' @
     question_constraints"
  by (simp add: question_prompt_def interpolate_def)

lemma question_prompt_no_page:
  "question_prompt None =
     lit ''Based on the fact that they are at undefined which is a site about undefined and the answers given so far, generate a question that is most useful to learn about their preferences for future uses of this website. Only output the question.'' @
     question_constraints"
  by (simp add: question_prompt_def interpolate_def lit_def)

section \<open>Dispatch\<close>

text \<open>
  Claim C1, as stated, fails in one point: at the identity position Authorization is
  not invoked with the text as submitted. With white space around the address the
  call carries the trimmed address, which is another string.
\<close>

theorem C1_token_counterexample:
  "snd (submitted part_001 (lit ''  alice@example.com '') initial) =
     [AwaitAuthorize (lit ''alice@example.com'') (lit ''google'')]
   \<and> snd (submitted part_001 (lit ''  alice@example.com '') initial) \<noteq>
     [AwaitAuthorize (lit ''  alice@example.com '') (lit ''google'')]"
proof -
  have a: "trim (lit ''  alice@example.com '') = lit ''alice@example.com''"
    by (simp add: trim_def lit_def isWhiteSpace_def)
  have b: "trim (lit ''  alice@example.com '') \<noteq> []"
    by (simp add: trim_def lit_def isWhiteSpace_def)
  have c: "lit ''alice@example.com'' \<noteq> lit ''  alice@example.com ''"
    by (simp add: lit_def)
  show ?thesis
    using a c by (simp add: submitted_calls [OF b] part_001_def initial_def)
qed

text \<open>
  Claim C1, amended. A submit whose text is not empty (\<open>input.trim()\<close> is truthy,
  the complement of the ignored input of C7) puts exactly one call in flight, chosen
  by the first test that matches, in this order: when the transcript of the handler's
  render is at the identity position, \<open>authorize\<close> with the trimmed text;
  otherwise, when \<open>questionCount\<close> is below the limit, the request for a clarifying
  question; otherwise the request for the summary of preferences. The wait on the
  connection that \<open>authorize\<close> returns belongs to the authorization and starts only
  after that call has resolved.
\<close>

theorem C1_dispatch_first_match:
  assumes "trim text \<noteq> []"
  shows "snd (submitted cfg text s) =
           [if length (messages s) = identityPosition cfg
              then AwaitAuthorize (trim text) (lit ''google'')
            else if questionCount s < questionLimit cfg
              then AwaitQuestion (question_params s) (questionCount s)
            else AwaitInsights (insights_params s)]
       \<and> length (snd (submitted cfg text s)) = 1"
  using assms by (simp add: submitted_calls)

theorem C1_dispatch_first_match_witness:
  "trim (lit ''alice@example.com'') \<noteq> []
   \<and> snd (submitted part_001 (lit ''alice@example.com'') initial) =
       [AwaitAuthorize (lit ''alice@example.com'') (lit ''google'')]
   \<and> trim (lit ''vegetarian'') \<noteq> []
   \<and> snd (submitted part_001 (lit ''vegetarian'') signed_in) =
       [AwaitQuestion (question_params signed_in) 0]
   \<and> trim (lit ''downtown'') \<noteq> []
   \<and> snd (submitted part_001 (lit ''downtown'') asked_twice) =
       [AwaitInsights (insights_params asked_twice)]"
proof -
  have a: "trim (lit ''alice@example.com'') = lit ''alice@example.com''"
    by (simp add: trim_def lit_def isWhiteSpace_def)
  have b: "trim (lit ''vegetarian'') \<noteq> []"
    by (simp add: trim_def lit_def isWhiteSpace_def)
  have c: "trim (lit ''downtown'') \<noteq> []"
    by (simp add: trim_def lit_def isWhiteSpace_def)
  have a': "trim (lit ''alice@example.com'') \<noteq> []"
    by (simp add: trim_def lit_def isWhiteSpace_def)
  show ?thesis
    using C1_dispatch_first_match [OF a', of part_001 initial]
      C1_dispatch_first_match [OF b, of part_001 signed_in]
      C1_dispatch_first_match [OF c, of part_001 asked_twice]
      a a' b c
    by (simp add: part_001_def initial_def signed_in_def asked_twice_def)
qed

text \<open>
  Claim C2, as stated, fails: the identity test is not made against the transcript
  length that includes the user turn of this submit. On the empty transcript of the
  variant with position 0 the submit is dispatched to \<open>authorize\<close> while the
  transcript with the new user turn has length 1; and in the variant with position 2
  a submit that brings the transcript to length 2 is not dispatched to
  \<open>authorize\<close>.
\<close>

theorem C2_identity_test_counterexample:
  "list_ex is_authorize (snd (submitted part_001 (lit ''alice@example.com'') initial))
   \<and> length (messages (fst (submitted part_001 (lit ''alice@example.com'') initial)))
       \<noteq> identityPosition part_001
   \<and> \<not> list_ex is_authorize (snd (submitted part_000 (lit ''alice@example.com'') on_page))
   \<and> length (messages (fst (submitted part_000 (lit ''alice@example.com'') on_page)))
       = identityPosition part_000"
proof -
  have t: "trim (lit ''alice@example.com'') \<noteq> []"
    by (simp add: trim_def lit_def isWhiteSpace_def)
  show ?thesis
    by (simp add: submitted_calls [OF t] submitted_state [OF t] part_001_def part_000_def
        initial_def on_page_def)
qed

text \<open>
  Claim C2, amended. \<open>handleSend\<close> compares \<open>messages.length\<close> of its render, the
  transcript length before the user turn of this submit is appended: the submit is
  dispatched to \<open>authorize\<close> exactly when that length is the identity position, that
  is, when the length that includes the new user turn is one more than the position.
\<close>

theorem C2_identity_test_before_append:
  assumes "trim text \<noteq> []"
  shows "length (messages (fst (submitted cfg text s))) = length (messages s) + 1
       \<and> (list_ex is_authorize (snd (submitted cfg text s)) \<longleftrightarrow>
            length (messages s) = identityPosition cfg)
       \<and> (list_ex is_authorize (snd (submitted cfg text s)) \<longleftrightarrow>
            length (messages (fst (submitted cfg text s))) = identityPosition cfg + 1)"
  using assms by (simp add: submitted_calls submitted_state)

theorem C2_identity_test_before_append_witness:
  "trim (lit ''vegetarian'') \<noteq> []
   \<and> length (messages (fst (submitted part_000 (lit ''vegetarian'') signed_in))) = 3
   \<and> identityPosition part_000 = 2
   \<and> list_ex is_authorize (snd (submitted part_000 (lit ''vegetarian'') signed_in))"
proof -
  have b: "trim (lit ''vegetarian'') \<noteq> []"
    by (simp add: trim_def lit_def isWhiteSpace_def)
  show ?thesis
    using C2_identity_test_before_append [OF b, of part_000 signed_in] b
    by (simp add: part_000_def signed_in_def)
qed

text \<open>
  Claim C10. For a submit whose text is not empty after trimming, the user turn
  appended holds the text as typed, untrimmed, and on the identity path the token
  given to \<open>authorize\<close> is the trimmed text. The witness has white space on both
  sides, so the two differ.
\<close>

theorem C10_raw_turn_trimmed_token:
  assumes "trim text \<noteq> []"
  shows "messages (fst (submitted cfg text s)) = messages s @ [\<lparr>role = User, content = text\<rparr>]
       \<and> (length (messages s) = identityPosition cfg \<longrightarrow>
            snd (submitted cfg text s) = [AwaitAuthorize (trim text) (lit ''google'')])"
  using assms by (simp add: submitted_calls submitted_state)

theorem C10_raw_turn_trimmed_token_witness:
  "trim (lit ''  alice@example.com '') \<noteq> []
   \<and> trim (lit ''  alice@example.com '') \<noteq> lit ''  alice@example.com ''
   \<and> length (messages initial) = identityPosition part_001
   \<and> messages (fst (submitted part_001 (lit ''  alice@example.com '') initial)) =
       [\<lparr>role = User, content = lit ''  alice@example.com ''\<rparr>]
   \<and> snd (submitted part_001 (lit ''  alice@example.com '') initial) =
       [AwaitAuthorize (lit ''alice@example.com'') (lit ''google'')]"
proof -
  have a: "trim (lit ''  alice@example.com '') = lit ''alice@example.com''"
    by (simp add: trim_def lit_def isWhiteSpace_def)
  have b: "trim (lit ''  alice@example.com '') \<noteq> []"
    by (simp add: trim_def lit_def isWhiteSpace_def)
  have c: "lit ''alice@example.com'' \<noteq> lit ''  alice@example.com ''"
    by (simp add: lit_def)
  have d: "length (messages initial) = identityPosition part_001"
    by (simp add: initial_def part_001_def)
  show ?thesis
    using C10_raw_turn_trimmed_token [OF b, of part_001 initial] a b c d
    by (simp add: initial_def)
qed

section \<open>Ignored input\<close>

text \<open>
  Claim C7. A submit whose text is empty or consists of white space only does
  nothing: no call is put in flight, no turn is appended and \<open>questionCount\<close>
  stays; the input field keeps what was typed.
\<close>

theorem C7_blank_submit_is_noop:
  assumes "\<forall>c\<in>set text. isWhiteSpace c"
  shows "snd (submitted cfg text s) = []
       \<and> (\<exists>s1. submit cfg svc text s = Inr (s1, [])
            \<and> messages s1 = messages s \<and> questionCount s1 = questionCount s
            \<and> pageInfo s1 = pageInfo s \<and> input s1 = text)"
proof -
  from assms have t: "trim text = []" by (simp add: trim_empty_iff)
  then have "submit cfg svc text s = Inr (s\<lparr>input := text\<rparr>, [])" by (rule submit_blank)
  then show ?thesis using t by (simp add: submitted_blank)
qed

theorem C7_blank_submit_is_noop_witness:
  "isWhiteSpace 0x20 \<and> isWhiteSpace 0x9
   \<and> snd (submitted part_001 [0x20, 0x9] asked_twice) = []
   \<and> submit part_001 offline [0x20, 0x9] asked_twice = Inr (asked_twice\<lparr>input := [0x20, 0x9]\<rparr>, [])"
proof -
  have w: "\<forall>c\<in>set [0x20, 0x9]. isWhiteSpace c"
    by (simp add: isWhiteSpace_def)
  from C7_blank_submit_is_noop [OF w, of part_001 asked_twice offline]
  obtain s1 where s1: "submit part_001 offline [0x20, 0x9] asked_twice = Inr (s1, [])"
      "messages s1 = messages asked_twice" "questionCount s1 = questionCount asked_twice"
      "pageInfo s1 = pageInfo asked_twice" "input s1 = [0x20, 0x9]"
    and n: "snd (submitted part_001 [0x20, 0x9] asked_twice) = []"
    by blast
  have "s1 = asked_twice\<lparr>input := [0x20, 0x9]\<rparr>"
    using s1(2-5) by (cases s1) (simp add: asked_twice_def)
  with s1(1) n w show ?thesis by simp
qed

section \<open>The question path\<close>

text \<open>
  On a submit dispatched to question generation, \<open>questionCount\<close> grows by exactly
  one when the call resolves with a response that has a first content block; when the
  promise rejects, \<open>questionCount\<close> stays as it is and the fixed error turn is
  appended after the user turn.
\<close>

lemma question_count_step:
  assumes "trim text \<noteq> []" "length (messages s) \<noteq> identityPosition cfg"
    "questionCount s < questionLimit cfg"
  shows "(\<forall>r. create svc (question_params s) = Resolved r \<and> response_content r \<noteq> [] \<longrightarrow>
            (\<exists>s1. submit cfg svc text s = Inr (s1, []) \<and> questionCount s1 = questionCount s + 1))
       \<and> (create svc (question_params s) = Rejected \<longrightarrow>
            (\<exists>s1. submit cfg svc text s = Inr (s1, []) \<and> questionCount s1 = questionCount s
               \<and> messages s1 = messages s @ [\<lparr>role = User, content = text\<rparr>, error_turn]))"
  unfolding submit_question [OF assms] settle_question
  by (auto simp: append_turn_def split: list.splits)

text \<open>
  Claim C5 asks that \<open>questionCount\<close> grows by one when the call succeeds and stays,
  with the error turn appended, when it fails. Evaluated on the code: when the
  Completion Service resolves with a response that has no content block, neither
  happens; the updater throws in the render, no error turn is appended and the
  component is unmounted. With a text block the count becomes 1, and with a rejected
  call the error turn follows the user turn.
\<close>

theorem C5_empty_response_unmounts:
  "snd (submitted part_001 (lit ''vegetarian'') signed_in) =
     [AwaitQuestion (question_params signed_in) 0]
   \<and> create (replying []) (question_params signed_in) = Resolved \<lparr>response_content = []\<rparr>
   \<and> submit part_001 (replying []) (lit ''vegetarian'') signed_in = Inl TypeError
   \<and> map_sum id (questionCount \<circ> fst)
        (submit part_001 (replying [TextBlock (lit ''Which cuisine?'')]) (lit ''vegetarian'') signed_in)
       = Inr 1
   \<and> submit part_001 offline (lit ''vegetarian'') signed_in =
       Inr (signed_in\<lparr>messages := messages signed_in @
              [\<lparr>role = User, content = lit ''vegetarian''\<rparr>, error_turn]\<rparr>, [])"
proof -
  have t: "trim (lit ''vegetarian'') \<noteq> []"
    by (simp add: trim_def lit_def isWhiteSpace_def)
  have 1: "snd (submitted part_001 (lit ''vegetarian'') signed_in) =
     [AwaitQuestion (question_params signed_in) 0]"
    by (simp add: submitted_calls [OF t] part_001_def signed_in_def)
  have 2: "create (replying []) (question_params signed_in) = Resolved \<lparr>response_content = []\<rparr>"
    by (simp add: replying_def)
  have 3: "submit part_001 (replying []) (lit ''vegetarian'') signed_in = Inl TypeError"
    by (simp add: submit_nonblank [OF t] submitted_calls [OF t] submitted_state [OF t]
        part_001_def signed_in_def replying_def resume_defs append_reply_def reply_text_def)
  have 4: "map_sum id (questionCount \<circ> fst)
        (submit part_001 (replying [TextBlock (lit ''Which cuisine?'')]) (lit ''vegetarian'') signed_in)
       = Inr 1"
    by (simp add: submit_nonblank [OF t] submitted_calls [OF t] submitted_state [OF t]
        part_001_def signed_in_def replying_def resume_defs append_reply_def reply_text_def
        append_turn_def)
  have 5: "submit part_001 offline (lit ''vegetarian'') signed_in =
       Inr (signed_in\<lparr>messages := messages signed_in @
              [\<lparr>role = User, content = lit ''vegetarian''\<rparr>, error_turn]\<rparr>, [])"
    by (simp add: submit_nonblank [OF t] submitted_calls [OF t] submitted_state [OF t]
        part_001_def signed_in_def offline_def append_turn_def resume_defs)
  from 1 2 3 4 5 show ?thesis by blast
qed

text \<open>
  Claim C9. When the Completion Service resolves with a response whose first content
  block is not a text block, the turn appended is the fixed text
  \<open>Response received\<close>, on the question path and on the summary path alike,
  whatever the rest of the response holds.
\<close>

theorem C9_non_text_block_placeholder:
  assumes "create svc params = Resolved r" and "response_content r = OtherBlock # rest"
  shows "settle svc (AwaitQuestion params qc) s =
           Inr (s\<lparr>messages := messages s @ [\<lparr>role = Assistant, content = lit ''Response received''\<rparr>],
                 questionCount := qc + 1\<rparr>, None)
       \<and> settle svc (AwaitInsights params) s =
           Inr (s\<lparr>messages := messages s @ [\<lparr>role = Assistant, content = lit ''Response received''\<rparr>]\<rparr>,
                None)"
  using assms by (simp add: resume_defs append_reply_def reply_text_def append_turn_def)

theorem C9_non_text_block_placeholder_witness:
  "create (replying [OtherBlock, TextBlock (lit ''Which cuisine?'')]) (question_params signed_in) =
     Resolved \<lparr>response_content = [OtherBlock, TextBlock (lit ''Which cuisine?'')]\<rparr>
   \<and> create (replying [OtherBlock, TextBlock (lit ''Which cuisine?'')]) (insights_params asked_twice) =
     Resolved \<lparr>response_content = [OtherBlock, TextBlock (lit ''Which cuisine?'')]\<rparr>
   \<and> response_content \<lparr>response_content = [OtherBlock, TextBlock (lit ''Which cuisine?'')]\<rparr> =
       OtherBlock # [TextBlock (lit ''Which cuisine?'')]
   \<and> settle (replying [OtherBlock, TextBlock (lit ''Which cuisine?'')])
         (AwaitQuestion (question_params signed_in) 0) signed_in =
       Inr (signed_in\<lparr>messages := messages signed_in @
              [\<lparr>role = Assistant, content = lit ''Response received''\<rparr>],
              questionCount := 1\<rparr>, None)
   \<and> settle (replying [OtherBlock, TextBlock (lit ''Which cuisine?'')])
         (AwaitInsights (insights_params asked_twice)) asked_twice =
       Inr (asked_twice\<lparr>messages := messages asked_twice @
              [\<lparr>role = Assistant, content = lit ''Response received''\<rparr>]\<rparr>, None)"
proof -
  let ?svc = "replying [OtherBlock, TextBlock (lit ''Which cuisine?'')]"
  have d: "create ?svc (question_params signed_in) =
     Resolved \<lparr>response_content = [OtherBlock, TextBlock (lit ''Which cuisine?'')]\<rparr>"
    by (simp add: replying_def)
  have d': "create ?svc (insights_params asked_twice) =
     Resolved \<lparr>response_content = [OtherBlock, TextBlock (lit ''Which cuisine?'')]\<rparr>"
    by (simp add: replying_def)
  have e: "response_content \<lparr>response_content = [OtherBlock, TextBlock (lit ''Which cuisine?'')]\<rparr> =
       OtherBlock # [TextBlock (lit ''Which cuisine?'')]"
    by simp
  show ?thesis
    using C9_non_text_block_placeholder [OF d e, of 0 signed_in]
      C9_non_text_block_placeholder [OF d' e, of 0 asked_twice] d d'
    by (simp del: settle.simps)
qed

section \<open>After the question limit\<close>

text \<open>
  Claim C4. From a state in which \<open>questionCount\<close> has reached the limit, no event
  of the rest of the session dispatches question generation; \<open>questionCount\<close>
  never goes down, so the session stays at the limit; and once the transcript is past
  the identity position every dispatch is the summary request, and every submit with
  text that is not empty, at whatever state the session has reached, puts exactly one
  call in flight, the summary request built from that state. Events are handled one
  at a time, each call settling before the next event.
\<close>

theorem C4_summarizing_is_terminal:
  assumes "questionLimit cfg \<le> questionCount s"
  shows "\<not> list_ex is_question (dispatches cfg es s)
       \<and> (identityPosition cfg < length (messages s) \<longrightarrow> list_all is_insights (dispatches cfg es s))
       \<and> (\<forall>s1. run cfg es s = Inr s1 \<longrightarrow> questionCount s \<le> questionCount s1)
       \<and> (\<forall>s1 text svc.
             run cfg es s = Inr s1 \<and> trim text \<noteq> [] \<and> identityPosition cfg < length (messages s) \<longrightarrow>
             calls_of cfg (Submit text svc) s1 = [AwaitInsights (insights_params s1)]
             \<and> dispatches cfg (es @ [Submit text svc]) s =
                 dispatches cfg es s @ [AwaitInsights (insights_params s1)])"
proof -
  have trace: "\<not> list_ex is_question (dispatches cfg es s)
       \<and> (identityPosition cfg < length (messages s) \<longrightarrow> list_all is_insights (dispatches cfg es s))"
    using assms
  proof (induction es arbitrary: s)
    case Nil
    show ?case by simp
  next
    case (Cons e es)
    show ?case
    proof (cases "step cfg e s")
      case (Inl x)
      with calls_of_no_question [OF Cons.prems, of e] calls_of_insights [OF Cons.prems, of e]
      show ?thesis by simp
    next
      case (Inr s0)
      have q: "questionLimit cfg \<le> questionCount s0"
        using Cons.prems step_questionCount_mono [OF Inr] by linarith
      have l: "identityPosition cfg < length (messages s) \<Longrightarrow>
               identityPosition cfg < length (messages s0)"
        using step_length_mono [OF Inr] by linarith
      from Cons.IH [OF q] calls_of_no_question [OF Cons.prems, of e]
        calls_of_insights [OF Cons.prems, of e] l Inr
      show ?thesis by auto
    qed
  qed
  have count: "\<forall>s1. run cfg es s = Inr s1 \<longrightarrow> questionCount s \<le> questionCount s1"
    using run_questionCount_mono by blast
  have next_one: "calls_of cfg (Submit line svc) s1 = [AwaitInsights (insights_params s1)]
       \<and> dispatches cfg (es @ [Submit line svc]) s =
           dispatches cfg es s @ [AwaitInsights (insights_params s1)]"
    if r: "run cfg es s = Inr s1" and t: "trim line \<noteq> []"
      and l: "identityPosition cfg < length (messages s)" for s1 line svc
  proof -
    have q1: "questionLimit cfg \<le> questionCount s1"
      using assms run_questionCount_mono [OF r] by linarith
    have l1: "identityPosition cfg < length (messages s1)"
      using l run_length_mono [OF r] by linarith
    have c: "snd (submitted cfg line s1) = [AwaitInsights (insights_params s1)]"
      using q1 l1 by (simp add: submitted_calls [OF t])
    with dispatches_submit [OF r, of line svc] show ?thesis by simp
  qed
  from trace count next_one show ?thesis by blast
qed

theorem C4_summarizing_is_terminal_witness:
  "questionLimit part_001 \<le> questionCount asked_twice
   \<and> identityPosition part_001 < length (messages asked_twice)
   \<and> trim (lit ''wine'') \<noteq> []
   \<and> run part_001
         [Submit (lit ''downtown'') (replying [TextBlock (lit ''{}'')]),
          PageInfo (Some \<lparr>response_title = Some (lit ''Thai''), response_url = Some (lit ''https://thai.example/'')\<rparr>),
          Submit (lit ''cheap'') offline] asked_twice = Inr summarized
   \<and> dispatches part_001
         [Submit (lit ''downtown'') (replying [TextBlock (lit ''{}'')]),
          PageInfo (Some \<lparr>response_title = Some (lit ''Thai''), response_url = Some (lit ''https://thai.example/'')\<rparr>),
          Submit (lit ''cheap'') offline] asked_twice =
       [AwaitInsights (insights_params asked_twice),
        AwaitInsights (insights_params
          (asked_twice\<lparr>messages := messages asked_twice @
             [\<lparr>role = User, content = lit ''downtown''\<rparr>,
              \<lparr>role = Assistant, content = lit ''{}''\<rparr>,
              \<lparr>role = Assistant, content = lit ''Current page: Thai''\<rparr>],
             pageInfo := Some \<lparr>title = lit ''Thai'', url = lit ''https://thai.example/''\<rparr>\<rparr>))]
   \<and> \<not> list_ex is_question (dispatches part_001
         [Submit (lit ''downtown'') (replying [TextBlock (lit ''{}'')]),
          PageInfo (Some \<lparr>response_title = Some (lit ''Thai''), response_url = Some (lit ''https://thai.example/'')\<rparr>),
          Submit (lit ''cheap'') offline] asked_twice)
   \<and> list_all is_insights (dispatches part_001
         [Submit (lit ''downtown'') (replying [TextBlock (lit ''{}'')]),
          PageInfo (Some \<lparr>response_title = Some (lit ''Thai''), response_url = Some (lit ''https://thai.example/'')\<rparr>),
          Submit (lit ''cheap'') offline] asked_twice)
   \<and> questionCount asked_twice \<le> questionCount summarized
   \<and> calls_of part_001 (Submit (lit ''wine'') offline) summarized =
       [AwaitInsights (insights_params summarized)]
   \<and> dispatches part_001
         ([Submit (lit ''downtown'') (replying [TextBlock (lit ''{}'')]),
           PageInfo (Some \<lparr>response_title = Some (lit ''Thai''), response_url = Some (lit ''https://thai.example/'')\<rparr>),
           Submit (lit ''cheap'') offline] @ [Submit (lit ''wine'') offline]) asked_twice =
       dispatches part_001
         [Submit (lit ''downtown'') (replying [TextBlock (lit ''{}'')]),
          PageInfo (Some \<lparr>response_title = Some (lit ''Thai''), response_url = Some (lit ''https://thai.example/'')\<rparr>),
          Submit (lit ''cheap'') offline] asked_twice
       @ [AwaitInsights (insights_params summarized)]"
proof -
  let ?es = "[Submit (lit ''downtown'') (replying [TextBlock (lit ''{}'')]),
          PageInfo (Some \<lparr>response_title = Some (lit ''Thai''), response_url = Some (lit ''https://thai.example/'')\<rparr>),
          Submit (lit ''cheap'') offline]"
  have a: "questionLimit part_001 \<le> questionCount asked_twice"
    by (simp add: part_001_def asked_twice_def)
  have b: "identityPosition part_001 < length (messages asked_twice)"
    by (simp add: part_001_def asked_twice_def)
  have t1: "trim (lit ''downtown'') \<noteq> []" and t2: "trim (lit ''cheap'') \<noteq> []"
    and t3: "trim (lit ''wine'') \<noteq> []"
    by (simp_all add: trim_def lit_def isWhiteSpace_def)
  have p: "lit ''Thai'' \<noteq> []" "lit ''https://thai.example/'' \<noteq> []"
    "lit ''Current page: '' @ lit ''Thai'' = lit ''Current page: Thai''"
    by (simp_all add: lit_def)
  have r: "run part_001 ?es asked_twice = Inr summarized"
    by (rule reach_summarized)
  have d: "dispatches part_001 ?es asked_twice =
       [AwaitInsights (insights_params asked_twice),
        AwaitInsights (insights_params
          (asked_twice\<lparr>messages := messages asked_twice @
             [\<lparr>role = User, content = lit ''downtown''\<rparr>,
              \<lparr>role = Assistant, content = lit ''{}''\<rparr>,
              \<lparr>role = Assistant, content = lit ''Current page: Thai''\<rparr>],
             pageInfo := Some \<lparr>title = lit ''Thai'', url = lit ''https://thai.example/''\<rparr>\<rparr>))]"
    by (simp add: submit_nonblank [OF t1] submit_nonblank [OF t2] submitted_calls [OF t1]
        submitted_calls [OF t2] submitted_state [OF t1] submitted_state [OF t2]
        part_001_def asked_twice_def offline_def replying_def resume_defs
        append_reply_def reply_text_def append_turn_def getPageInfo_def p insights_params_def)
  show ?thesis
    using C4_summarizing_is_terminal [OF a, of ?es] a b t3 r d
    by blast
qed

section \<open>Failures outside the question path\<close>

text \<open>
  Claim C3 asks that a failure of any collaborator becomes one error turn and never
  ends the session. Only \<open>generateQuestion\<close> catches. Evaluated on the code: when
  the Completion Service rejects on the summary path, or the Authorization Service
  rejects on the identity path, the transcript gains the user turn and nothing else,
  and the rejection is left unhandled; on the question path the same rejection gives
  the error turn; and a response without a content block ends the session even on
  the question path.
\<close>

theorem C3_failure_without_error_turn:
  "submit part_001 offline (lit ''downtown'') asked_twice =
     Inr (asked_twice\<lparr>messages := messages asked_twice @ [\<lparr>role = User, content = lit ''downtown''\<rparr>]\<rparr>,
          [ServiceError])
   \<and> submit part_001 offline (lit ''alice@example.com'') initial =
     Inr (initial\<lparr>messages := [\<lparr>role = User, content = lit ''alice@example.com''\<rparr>]\<rparr>,
          [ServiceError])
   \<and> submit part_001 offline (lit ''vegetarian'') signed_in =
     Inr (signed_in\<lparr>messages := messages signed_in @
            [\<lparr>role = User, content = lit ''vegetarian''\<rparr>, error_turn]\<rparr>, [])
   \<and> submit part_001 (replying []) (lit ''vegetarian'') signed_in = Inl TypeError"
proof -
  have t1: "trim (lit ''downtown'') \<noteq> []" and t2: "trim (lit ''alice@example.com'') \<noteq> []"
    and t3: "trim (lit ''vegetarian'') \<noteq> []"
    by (simp_all add: trim_def lit_def isWhiteSpace_def)
  have 1: "submit part_001 offline (lit ''downtown'') asked_twice =
     Inr (asked_twice\<lparr>messages := messages asked_twice @ [\<lparr>role = User, content = lit ''downtown''\<rparr>]\<rparr>,
          [ServiceError])"
    by (simp add: submit_nonblank [OF t1] submitted_calls [OF t1] submitted_state [OF t1]
        part_001_def asked_twice_def offline_def resume_defs)
  have 2: "submit part_001 offline (lit ''alice@example.com'') initial =
     Inr (initial\<lparr>messages := [\<lparr>role = User, content = lit ''alice@example.com''\<rparr>]\<rparr>,
          [ServiceError])"
    by (simp add: submit_nonblank [OF t2] submitted_calls [OF t2] submitted_state [OF t2]
        part_001_def initial_def offline_def resume_defs)
  have 3: "submit part_001 offline (lit ''vegetarian'') signed_in =
     Inr (signed_in\<lparr>messages := messages signed_in @
            [\<lparr>role = User, content = lit ''vegetarian''\<rparr>, error_turn]\<rparr>, [])"
    by (simp add: submit_nonblank [OF t3] submitted_calls [OF t3] submitted_state [OF t3]
        part_001_def signed_in_def offline_def append_turn_def resume_defs)
  have 4: "submit part_001 (replying []) (lit ''vegetarian'') signed_in = Inl TypeError"
    by (simp add: submit_nonblank [OF t3] submitted_calls [OF t3] submitted_state [OF t3]
        part_001_def signed_in_def replying_def resume_defs append_reply_def reply_text_def)
  from 1 2 3 4 show ?thesis by blast
qed

text \<open>
  Claim C6 asks for a transcript of length \<open>2N\<close> after \<open>N\<close> submits. Evaluated on
  the code: the session of four submits whose last call is rejected ends with 7
  turns where 8 are expected, and a single submit whose authorization is rejected
  leaves 1 turn. The transcript never shrinks (\<open>run_length_mono\<close>), and a session
  that leaves no rejection unhandled has the expected length
  (\<open>all_handled_length\<close>).
\<close>

theorem C6_length_after_failed_summary:
  "run part_001
      [Submit (lit ''alice@example.com'') (replying []),
       Submit (lit ''vegetarian'') (replying [TextBlock (lit ''Which cuisine?'')]),
       Submit (lit ''thai food'') (replying [TextBlock (lit ''Which area?'')]),
       Submit (lit ''downtown'') offline] initial
     = Inr (asked_twice\<lparr>messages := messages asked_twice @ [\<lparr>role = User, content = lit ''downtown''\<rparr>]\<rparr>)
   \<and> length (messages asked_twice @ [\<lparr>role = User, content = lit ''downtown''\<rparr>]) = 7
   \<and> expected_turns
      [Submit (lit ''alice@example.com'') (replying []),
       Submit (lit ''vegetarian'') (replying [TextBlock (lit ''Which cuisine?'')]),
       Submit (lit ''thai food'') (replying [TextBlock (lit ''Which area?'')]),
       Submit (lit ''downtown'') offline] = 8
   \<and> run part_001 [Submit (lit ''alice@example.com'') offline] initial
     = Inr (initial\<lparr>messages := [\<lparr>role = User, content = lit ''alice@example.com''\<rparr>]\<rparr>)"
proof -
  have t1: "trim (lit ''downtown'') \<noteq> []" and t2: "trim (lit ''alice@example.com'') \<noteq> []"
    by (simp_all add: trim_def lit_def isWhiteSpace_def)
  have "run part_001
      [Submit (lit ''alice@example.com'') (replying []),
       Submit (lit ''vegetarian'') (replying [TextBlock (lit ''Which cuisine?'')]),
       Submit (lit ''thai food'') (replying [TextBlock (lit ''Which area?'')]),
       Submit (lit ''downtown'') offline] initial
     = run part_001 [Submit (lit ''downtown'') offline] asked_twice"
    using reach_signed_in reach_asked_twice by (auto split: sum.splits)
  moreover have "run part_001 [Submit (lit ''downtown'') offline] asked_twice
     = Inr (asked_twice\<lparr>messages := messages asked_twice @ [\<lparr>role = User, content = lit ''downtown''\<rparr>]\<rparr>)"
    by (simp add: submit_nonblank [OF t1] submitted_calls [OF t1] submitted_state [OF t1]
        part_001_def asked_twice_def offline_def resume_defs)
  moreover have "length (messages asked_twice @ [\<lparr>role = User, content = lit ''downtown''\<rparr>]) = 7"
    by (simp add: asked_twice_def)
  moreover have "expected_turns
      [Submit (lit ''alice@example.com'') (replying []),
       Submit (lit ''vegetarian'') (replying [TextBlock (lit ''Which cuisine?'')]),
       Submit (lit ''thai food'') (replying [TextBlock (lit ''Which area?'')]),
       Submit (lit ''downtown'') offline] = 8"
    by (simp add: trim_def lit_def isWhiteSpace_def)
  moreover have "run part_001 [Submit (lit ''alice@example.com'') offline] initial
     = Inr (initial\<lparr>messages := [\<lparr>role = User, content = lit ''alice@example.com''\<rparr>]\<rparr>)"
    by (simp add: submit_nonblank [OF t2] submitted_calls [OF t2] submitted_state [OF t2]
        part_001_def initial_def offline_def resume_defs)
  ultimately show ?thesis by simp
qed

text \<open>
  Claim C8 asks that the request for a question holds the full transcript so far.
  Evaluated on the code: after the submit of \<open>vegetarian\<close> the transcript ends with
  that user turn, while the request sent by the same submit holds the two earlier
  turns only; \<open>generateQuestion\<close> spreads the \<open>messages\<close> of the render in which
  the form was submitted. The page and the two constraints are in the instruction as
  the claim says (\<open>question_prompt_page\<close>, \<open>question_prompt_no_page\<close>).
\<close>

theorem C8_request_omits_submitted_turn:
  "messages (fst (submitted part_001 (lit ''vegetarian'') signed_in)) =
     [\<lparr>role = User, content = lit ''alice@example.com''\<rparr>, authorize_turn sample_link,
      \<lparr>role = User, content = lit ''vegetarian''\<rparr>]
   \<and> snd (submitted part_001 (lit ''vegetarian'') signed_in) =
       [AwaitQuestion
          \<lparr>model = lit ''claude-3-haiku-20240307'', max_tokens = 256,
           request_messages =
             [\<lparr>role = Assistant, content = question_system\<rparr>,
              \<lparr>role = User, content = lit ''alice@example.com''\<rparr>, authorize_turn sample_link,
              \<lparr>role = User, content = question_prompt None\<rparr>]\<rparr> 0]"
proof -
  have t: "trim (lit ''vegetarian'') \<noteq> []"
    by (simp add: trim_def lit_def isWhiteSpace_def)
  show ?thesis
    by (simp add: submitted_calls [OF t] submitted_state [OF t] part_001_def signed_in_def
        question_params_def)
qed

end
